theory Spec2Isabelle
  imports Complex_Main
begin

section \<open>Kernel algebra of gpjax/kernels/base.py\<close>

text \<open>
  The module defines the abstract kernel, the constant kernel, the combination kernel
  with its two factories, and the normaliser of the \<open>active_dims\<close> selector.
  Python is dynamically typed, so the values that can reach a constructor are a
  datatype of their own; every \<open>raise\<close> of the source, and every exception an
  operation of the source throws on the way, is a value \<open>Inl e\<close>.

  Scalars are modelled as real numbers, and arrays as a shape with the row-major list
  of their elements. \<open>evaluate\<close> reduces in exact arithmetic. Where the order of a
  reduction matters, \<open>evaluate_float\<close> rounds every partial result to the precision of
  the floating-point format, as the array library does.
\<close>

subsection \<open>Values\<close>

datatype error =
    TypeError string
  | ValueError string
  | ZeroDivisionError
  | IndexError

text \<open>A Python \<open>slice(start, stop, step)\<close>; an omitted part is \<open>None\<close>.\<close>

datatype slice = Slice (start: "int option") (stop: "int option") (step: "int option")

text \<open>The values other than kernels that the code tells apart with \<open>isinstance\<close>.\<close>

datatype pyval =
    PyInt int
  | PyFloat real
  | PyStr string
  | PyNone
  | PyList "int list"
  | PySlice slice

text \<open>An array: its shape and its elements. A scalar has the empty shape.\<close>

datatype ndarray = NDArray (shape: "nat list") (data: "real list")

definition scalar :: "real \<Rightarrow> ndarray" where
  "scalar v = NDArray [] [v]"

text \<open>\<open>a.squeeze()\<close> drops every axis of length one and keeps the elements.\<close>

definition squeeze :: "ndarray \<Rightarrow> ndarray" where
  "squeeze a = NDArray (filter (\<lambda>d. d \<noteq> 1) (shape a)) (data a)"

text \<open>The two reductions the factories bind as \<open>operator\<close>.\<close>

datatype reduction = jnp_sum | jnp_prod

text \<open>
  The kernel objects. The fields of \<open>AbstractKernel\<close> come first in every variant:
  \<open>n_dims\<close> (declared \<open>init=False\<close>, so it is unset, \<open>None\<close>, until a
  \<open>__post_init__\<close> assigns it), \<open>active_dims\<close> and \<open>name\<close>. The field
  \<open>compute_engine\<close> is only handed on by \<open>gram\<close> and \<open>cross_covariance\<close> and is
  left out. The field \<open>constant\<close> is named \<open>constant_param\<close>, the plain name
  being reserved. \<open>OtherKernel\<close> stands for any other concrete subclass of
  \<open>AbstractKernel\<close>; it brings its own \<open>__call__\<close>.
\<close>

datatype kernel =
    Constant (n_dims: "int option") (active_dims: pyval) (name: string)
      (constant_param: ndarray)
  | CombinationKernel (n_dims: "int option") (active_dims: pyval) (name: string)
      (kernels: "kernel list") (operator: reduction)
  | OtherKernel (n_dims: "int option") (active_dims: pyval) (name: string)
      (call: "real list \<Rightarrow> real list \<Rightarrow> real")

text \<open>An operand of \<open>+\<close>, \<open>*\<close> or of a factory: a kernel or anything else.\<close>

datatype operand = PyKernel kernel | PyValue pyval

subsection \<open>The normaliser \<open>_check_active_dims\<close>\<close>

text \<open>
  The branches follow the \<open>isinstance\<close> chain. In the slice branch the source
  computes \<open>(a.stop - a.start) // step\<close> with no guard: the subtraction raises
  \<open>TypeError\<close> when either bound is \<open>None\<close>, and the floor division raises
  \<open>ZeroDivisionError\<close> when the step is zero. Python's \<open>//\<close> on integers rounds
  towards minus infinity, as \<open>div\<close> on \<open>int\<close> does.
\<close>

definition check_active_dims :: "pyval \<Rightarrow> error + (int \<times> pyval)" where
  "check_active_dims a =
     (case a of
        PyList l \<Rightarrow> Inr (int (length l), PyList l)
      | PyInt i \<Rightarrow> Inr (i, PySlice (Slice None None None))
      | PySlice s \<Rightarrow>
          (let stp = (case step s of None \<Rightarrow> 1 | Some t \<Rightarrow> t) in
           case stop s of
             None \<Rightarrow> Inl (TypeError ''unsupported operand type(s) for -'')
           | Some b \<Rightarrow>
               (case start s of
                  None \<Rightarrow> Inl (TypeError ''unsupported operand type(s) for -'')
                | Some a' \<Rightarrow>
                    if stp = 0 then Inl ZeroDivisionError
                    else Inr ((b - a') div stp, PySlice s)))
      | _ \<Rightarrow> Inl (ValueError ''active_dims must be a list, int or slice.''))"

subsection \<open>Indexing the trailing axis\<close>

text \<open>
  \<open>x[..., sel]\<close> leaves the leading axes alone, so the model indexes one row.
  An integer index counts from the end when negative. An index outside the row is
  reported as \<open>IndexError\<close>; the array library may clamp it instead, and no
  statement below depends on that case.
\<close>

definition py_index :: "'a list \<Rightarrow> int \<Rightarrow> error + 'a" where
  "py_index x i =
     (let n = int (length x); j = (if i < 0 then i + n else i)
      in if 0 \<le> j \<and> j < n then Inr (x ! nat j) else Inl IndexError)"

text \<open>A list comprehension over calls that may raise: the first exception ends it.\<close>

fun collect :: "(error + 'a) list \<Rightarrow> error + 'a list" where
  "collect [] = Inr []"
| "collect (Inl e # rs) = Inl e"
| "collect (Inr v # rs) = (case collect rs of Inl e \<Rightarrow> Inl e | Inr vs \<Rightarrow> Inr (v # vs))"

text \<open>\<open>slice.indices(len)\<close>: the bounds of a slice on an axis of length \<open>len\<close>.\<close>

definition slice_indices :: "slice \<Rightarrow> int \<Rightarrow> error + (int \<times> int \<times> int)" where
  "slice_indices s len =
     (let stp = (case step s of None \<Rightarrow> 1 | Some t \<Rightarrow> t) in
      if stp = 0 then Inl (ValueError ''slice step cannot be zero'')
      else
        let lower = (if stp < 0 then - 1 else 0);
            upper = (if stp < 0 then len - 1 else len);
            a = (case start s of
                   None \<Rightarrow> (if stp < 0 then upper else lower)
                 | Some i \<Rightarrow> (if i < 0 then max (i + len) lower else min i upper));
            b = (case stop s of
                   None \<Rightarrow> (if stp < 0 then lower else upper)
                 | Some i \<Rightarrow> (if i < 0 then max (i + len) lower else min i upper))
        in Inr (a, b, stp))"

text \<open>\<open>len(range(a, b, stp))\<close> for a non-zero step.\<close>

definition range_len :: "int \<Rightarrow> int \<Rightarrow> int \<Rightarrow> nat" where
  "range_len a b stp =
     (if 0 < stp then (if a < b then nat ((b - a - 1) div stp + 1) else 0)
      else (if b < a then nat ((a - b - 1) div (- stp) + 1) else 0))"

text \<open>What indexing the trailing axis returns: columns, or one element for an integer.\<close>

datatype 'a sliced = Columns "'a list" | Element 'a

definition index_trailing :: "pyval \<Rightarrow> 'a list \<Rightarrow> error + 'a sliced" where
  "index_trailing sel x =
     (case sel of
        PyList l \<Rightarrow>
          (case collect (map (py_index x) l) of
             Inl e \<Rightarrow> Inl e
           | Inr cs \<Rightarrow> Inr (Columns cs))
      | PyInt i \<Rightarrow>
          (case py_index x i of Inl e \<Rightarrow> Inl e | Inr v \<Rightarrow> Inr (Element v))
      | PySlice s \<Rightarrow>
          (case slice_indices s (int (length x)) of
             Inl e \<Rightarrow> Inl e
           | Inr (a, b, stp) \<Rightarrow>
               Inr (Columns (map (\<lambda>j. x ! nat (a + int j * stp)) [0..<range_len a b stp])))
      | _ \<Rightarrow> Inl (TypeError ''invalid index''))"

text \<open>
  \<open>AbstractKernel.slice_input\<close>. \<open>None\<close> is tested before the indexing, so the
  last branch of \<open>index_trailing\<close> is reached by floats and strings only.
\<close>

definition slice_input :: "kernel \<Rightarrow> 'a list \<Rightarrow> error + 'a sliced" where
  "slice_input self x =
     (if active_dims self \<noteq> PyNone then index_trailing (active_dims self) x
      else Inr (Columns x))"

subsection \<open>Construction\<close>

text \<open>Assigning \<open>self.n_dims, self.active_dims\<close>.\<close>

fun set_dims :: "int \<Rightarrow> pyval \<Rightarrow> kernel \<Rightarrow> kernel" where
  "set_dims n a (Constant _ _ nm c) = Constant (Some n) a nm c"
| "set_dims n a (CombinationKernel _ _ nm ks opr) = CombinationKernel (Some n) a nm ks opr"
| "set_dims n a (OtherKernel _ _ nm f) = OtherKernel (Some n) a nm f"

text \<open>\<open>AbstractKernel.__post_init__\<close>, run on the object the generated initialiser filled.\<close>

definition AbstractKernel_post_init :: "kernel \<Rightarrow> error + kernel" where
  "AbstractKernel_post_init self =
     (case check_active_dims (active_dims self) of
        Inl e \<Rightarrow> Inl e
      | Inr (n, a) \<Rightarrow> Inr (set_dims n a self))"

text \<open>
  \<open>Constant\<close> is a dataclass. Its generated initialiser takes the fields with
  \<open>init=True\<close> in declaration order, those of the base class first:
  \<open>active_dims\<close>, \<open>compute_engine\<close>, \<open>name\<close>, \<open>constant\<close>; then it runs the
  inherited \<open>__post_init__\<close>. The defaults are \<open>1\<close>, \<open>"AbstractKernel"\<close> and
  \<open>jnp.array(0.0)\<close>.
\<close>

definition default_active_dims :: pyval where
  "default_active_dims = PyInt 1"

definition default_name :: string where
  "default_name = ''AbstractKernel''"

definition default_constant :: ndarray where
  "default_constant = scalar 0"

definition Constant_init :: "pyval \<Rightarrow> string \<Rightarrow> ndarray \<Rightarrow> error + kernel" where
  "Constant_init ad nm c = AbstractKernel_post_init (Constant None ad nm c)"

text \<open>
  \<open>Constant(other)\<close> as \<open>__add__\<close> and \<open>__mul__\<close> write it: one positional
  argument, which the initialiser binds to its first parameter, \<open>active_dims\<close>.
\<close>

definition Constant_positional :: "pyval \<Rightarrow> error + kernel" where
  "Constant_positional other = Constant_init other default_name default_constant"

text \<open>
  \<open>isinstance(kernel, self.__class__)\<close>: both factories are partial applications of
  the one class \<open>CombinationKernel\<close>, so \<open>self.__class__\<close> is that class whatever
  the operator, and the test holds for every combination kernel.
\<close>

fun isinstance_self_class :: "kernel \<Rightarrow> bool" where
  "isinstance_self_class (CombinationKernel _ _ _ _ _) = True"
| "isinstance_self_class _ = False"

text \<open>
  The loop of \<open>CombinationKernel.__post_init__\<close>, with \<open>kernels_list\<close> as the
  accumulator.
\<close>

fun flatten_loop :: "operand list \<Rightarrow> kernel list \<Rightarrow> error + kernel list" where
  "flatten_loop [] kernels_list = Inr kernels_list"
| "flatten_loop (PyValue v # rest) kernels_list =
     Inl (TypeError ''can only combine Kernel instances'')"
| "flatten_loop (PyKernel k # rest) kernels_list =
     (if isinstance_self_class k then flatten_loop rest (kernels_list @ kernels k)
      else flatten_loop rest (kernels_list @ [k]))"

text \<open>
  Constructing a \<open>CombinationKernel\<close>: the generated initialiser stores the
  arguments, then the overriding \<open>__post_init__\<close> runs. It does not call the base
  class's, so \<open>n_dims\<close> stays unset and \<open>active_dims\<close> stays as given.
\<close>

definition CombinationKernel_init ::
  "pyval \<Rightarrow> string \<Rightarrow> operand list \<Rightarrow> reduction \<Rightarrow> error + kernel" where
  "CombinationKernel_init ad nm ks opr =
     (case flatten_loop ks [] of
        Inl e \<Rightarrow> Inl e
      | Inr kernels_list \<Rightarrow> Inr (CombinationKernel None ad nm kernels_list opr))"

definition SumKernel :: "operand list \<Rightarrow> error + kernel" where
  "SumKernel ks = CombinationKernel_init default_active_dims default_name ks jnp_sum"

definition ProductKernel :: "operand list \<Rightarrow> error + kernel" where
  "ProductKernel ks = CombinationKernel_init default_active_dims default_name ks jnp_prod"

subsection \<open>Operators\<close>

definition add :: "kernel \<Rightarrow> operand \<Rightarrow> error + kernel" where
  "add self other =
     (case other of
        PyKernel k \<Rightarrow> SumKernel [PyKernel self, PyKernel k]
      | PyValue v \<Rightarrow>
          (case Constant_positional v of
             Inl e \<Rightarrow> Inl e
           | Inr c \<Rightarrow> SumKernel [PyKernel self, PyKernel c]))"

definition radd :: "kernel \<Rightarrow> operand \<Rightarrow> error + kernel" where
  "radd self other = add self other"

definition mul :: "kernel \<Rightarrow> operand \<Rightarrow> error + kernel" where
  "mul self other =
     (case other of
        PyKernel k \<Rightarrow> ProductKernel [PyKernel self, PyKernel k]
      | PyValue v \<Rightarrow>
          (case Constant_positional v of
             Inl e \<Rightarrow> Inl e
           | Inr c \<Rightarrow> ProductKernel [PyKernel self, PyKernel c]))"

subsection \<open>Evaluation\<close>

text \<open>
  \<open>jnp.stack\<close> puts arrays of one shape along a new leading axis; it raises on an
  empty list and on differing shapes.
\<close>

definition jnp_stack :: "ndarray list \<Rightarrow> error + ndarray" where
  "jnp_stack arrays =
     (case arrays of
        [] \<Rightarrow> Inl (ValueError ''Need at least one array to stack.'')
      | a # rest \<Rightarrow>
          if list_all (\<lambda>b. shape b = shape a) rest
          then Inr (NDArray (length arrays # shape a) (concat (map data arrays)))
          else Inl (ValueError ''All input arrays must have the same shape.''))"

text \<open>The bound operator, called with no axis: it reduces over every element.\<close>

fun apply_operator :: "reduction \<Rightarrow> ndarray \<Rightarrow> ndarray" where
  "apply_operator jnp_sum a = scalar (sum_list (data a))"
| "apply_operator jnp_prod a = scalar (prod_list (data a))"

text \<open>\<open>k(x, y)\<close>, the \<open>__call__\<close> of each variant.\<close>

fun evaluate :: "kernel \<Rightarrow> real list \<Rightarrow> real list \<Rightarrow> error + ndarray" where
  "evaluate (Constant _ _ _ c) x y = Inr (squeeze c)"
| "evaluate (CombinationKernel _ _ _ ks opr) x y =
     (case collect (map (\<lambda>k. evaluate k x y) ks) of
        Inl e \<Rightarrow> Inl e
      | Inr results \<Rightarrow>
          (case jnp_stack results of
             Inl e \<Rightarrow> Inl e
           | Inr stacked \<Rightarrow> Inr (apply_operator opr stacked)))"
| "evaluate (OtherKernel _ _ _ f) x y = Inr (scalar (f x y))"

subsection \<open>Evaluation in floating point\<close>

text \<open>
  Rounding to the nearest value with \<open>p\<close> significant bits, ties to the even
  neighbour: binary64 for \<open>p = 53\<close>, binary32 for \<open>p = 24\<close>. Overflow, subnormal
  numbers and the special values are left out.
\<close>

definition round_half_even :: "real \<Rightarrow> int" where
  "round_half_even x =
     (let f = \<lfloor>x\<rfloor>; d = x - of_int f
      in if d < 1 / 2 then f else if 1 / 2 < d then f + 1 else if even f then f else f + 1)"

definition pow2 :: "int \<Rightarrow> real" where
  "pow2 e = (if 0 \<le> e then 2 ^ nat e else 1 / 2 ^ nat (- e))"

definition round_to_precision :: "nat \<Rightarrow> real \<Rightarrow> real" where
  "round_to_precision p x =
     (if x = 0 then 0
      else let e = \<lfloor>log 2 \<bar>x\<bar>\<rfloor> - (int p - 1)
           in of_int (round_half_even (x / pow2 e)) * pow2 e)"

text \<open>
  The bound operator on a float array: the elements are combined in their order, from
  the neutral element on, and every partial result is rounded.
\<close>

fun float_operator :: "nat \<Rightarrow> reduction \<Rightarrow> ndarray \<Rightarrow> ndarray" where
  "float_operator p jnp_sum a =
     scalar (foldl (\<lambda>acc v. round_to_precision p (acc + v)) 0 (data a))"
| "float_operator p jnp_prod a =
     scalar (foldl (\<lambda>acc v. round_to_precision p (acc * v)) 1 (data a))"

text \<open>\<open>k(x, y)\<close> with the reduction carried out in floating point.\<close>

fun evaluate_float :: "nat \<Rightarrow> kernel \<Rightarrow> real list \<Rightarrow> real list \<Rightarrow> error + ndarray" where
  "evaluate_float p (Constant _ _ _ c) x y = Inr (squeeze c)"
| "evaluate_float p (CombinationKernel _ _ _ ks opr) x y =
     (case collect (map (\<lambda>k. evaluate_float p k x y) ks) of
        Inl e \<Rightarrow> Inl e
      | Inr results \<Rightarrow>
          (case jnp_stack results of
             Inl e \<Rightarrow> Inl e
           | Inr stacked \<Rightarrow> Inr (float_operator p opr stacked)))"
| "evaluate_float p (OtherKernel _ _ _ f) x y = Inr (scalar (f x y))"

subsection \<open>Objects the constructors return\<close>

inductive constructible :: "kernel \<Rightarrow> bool" where
  leaf: "\<not> isinstance_self_class raw \<Longrightarrow> AbstractKernel_post_init raw = Inr k
           \<Longrightarrow> constructible k"
| combination: "\<forall>k \<in> set ks. constructible k
           \<Longrightarrow> CombinationKernel_init ad nm (map PyKernel ks) opr = Inr c
           \<Longrightarrow> constructible c"

subsection \<open>A fixture\<close>

text \<open>
  The object that \<open>Constant(constant=jnp.array(v))\<close> returns, every other field at
  its default: the default selector \<open>1\<close> is normalised to \<open>n_dims = 1\<close> and the
  full slice.
\<close>

abbreviation const_kernel :: "real \<Rightarrow> kernel" where
  "const_kernel v \<equiv>
     Constant (Some 1) (PySlice (Slice None None None)) default_name (scalar v)"

section \<open>Properties\<close>

subsection \<open>Helper lemmas: construction\<close>

lemma Constant_init_default:
  "Constant_init default_active_dims default_name (scalar v) = Inr (const_kernel v)"
  by (simp add: Constant_init_def AbstractKernel_post_init_def check_active_dims_def
        default_active_dims_def)

lemma post_init_fields:
  assumes "AbstractKernel_post_init raw = Inr k"
    and "check_active_dims (active_dims raw) = Inr (n, a)"
  shows "n_dims k = Some n \<and> active_dims k = a"
  using assms by (cases raw) (auto simp: AbstractKernel_post_init_def)

lemma post_init_keeps_class:
  "AbstractKernel_post_init raw = Inr k \<Longrightarrow>
     isinstance_self_class k = isinstance_self_class raw"
  by (cases raw) (auto simp: AbstractKernel_post_init_def split: sum.splits)

lemma flatten_loop_kernels:
  "flatten_loop (map PyKernel ks) acc =
     Inr (acc @ concat (map (\<lambda>k. if isinstance_self_class k then kernels k else [k]) ks))"
  by (induction ks arbitrary: acc) simp_all

lemma flatten_loop_non_kernel:
  "PyValue v \<in> set ks \<Longrightarrow>
     flatten_loop ks acc = Inl (TypeError ''can only combine Kernel instances'')"
proof (induction ks arbitrary: acc)
  case Nil
  then show ?case by simp
next
  case (Cons a ks)
  show ?case
  proof (cases a)
    case (PyKernel k)
    with Cons.prems have "PyValue v \<in> set ks" by auto
    with Cons.IH PyKernel show ?thesis by simp
  next
    case (PyValue w)
    then show ?thesis by simp
  qed
qed

lemma add_kernel:
  "add A (PyKernel B) =
     Inr (CombinationKernel None default_active_dims default_name
       ((if isinstance_self_class A then kernels A else [A]) @
        (if isinstance_self_class B then kernels B else [B])) jnp_sum)"
  by (simp add: add_def SumKernel_def CombinationKernel_init_def)

lemma const_kernel_constructible: "constructible (const_kernel v)"
  by (rule constructible.leaf [of "Constant None default_active_dims default_name (scalar v)"])
     (simp_all add: AbstractKernel_post_init_def check_active_dims_def default_active_dims_def)

text \<open>
  Whatever the operator, a constructed combination kernel has no combination kernel
  among its children: the loop splices every one of them.
\<close>

lemma constructible_children_are_leaves:
  "constructible k \<Longrightarrow> isinstance_self_class k \<Longrightarrow>
     \<forall>c \<in> set (kernels k). \<not> isinstance_self_class c"
proof (induction rule: constructible.induct)
  case (leaf raw k)
  then show ?case by (simp add: post_init_keeps_class)
next
  case (combination ks ad nm opr c)
  from combination.hyps have c:
    "c = CombinationKernel None ad nm
           (concat (map (\<lambda>k. if isinstance_self_class k then kernels k else [k]) ks)) opr"
    by (simp add: CombinationKernel_init_def flatten_loop_kernels)
  show ?case
  proof
    fix d assume "d \<in> set (kernels c)"
    with c obtain k where k: "k \<in> set ks"
      and d: "d \<in> set (if isinstance_self_class k then kernels k else [k])"
      by auto
    show "\<not> isinstance_self_class d"
    proof (cases "isinstance_self_class k")
      case True
      with combination.IH k d show ?thesis by auto
    next
      case False
      with d show ?thesis by simp
    qed
  qed
qed

subsection \<open>Helper lemmas: indexing\<close>

lemma collect_in_range:
  "list_all (\<lambda>i. - int (length x) \<le> i \<and> i < int (length x)) l \<Longrightarrow>
     \<exists>cols. collect (map (py_index x) l) = Inr cols \<and> length cols = length l"
proof (induction l)
  case Nil
  then show ?case by simp
next
  case (Cons i l)
  then obtain cols where "collect (map (py_index x) l) = Inr cols" "length cols = length l"
    by auto
  moreover from Cons.prems have "\<exists>v. py_index x i = Inr v"
    by (auto simp: py_index_def Let_def)
  ultimately show ?case by auto
qed

lemma full_slice_selects_all:
  "index_trailing (PySlice (Slice None None None)) x = Inr (Columns x)"
proof -
  have "map (\<lambda>j. x ! nat (int j)) [0..<length x] = x"
    by (simp add: map_nth)
  then show ?thesis
    by (cases "x = []") (simp_all add: index_trailing_def slice_indices_def range_len_def)
qed

text \<open>Rounding up agrees with rounding down exactly on multiples of the step.\<close>

lemma ceil_div_eq_floor_div_iff:
  fixes d s :: int
  assumes "0 < s" "0 \<le> d"
  shows "((d + s - 1) div s = d div s) = (s dvd d)"
proof (cases "d mod s = 0")
  case True
  then obtain q where q: "d = s * q" by auto
  have "(s * q + (s - 1)) div s = q + (s - 1) div s"
    using assms(1) by simp
  also have "(s - 1) div s = 0" using assms(1) by simp
  finally show ?thesis using True q assms(1) by (simp add: algebra_simps)
next
  case False
  define r where "r = d mod s"
  define q where "q = d div s"
  have "0 \<le> d mod s" "d mod s < s" using assms(1) by simp_all
  with False have r: "0 < r" "r < s" unfolding r_def by linarith+
  have d: "d = s * q + r" by (simp add: r_def q_def)
  have e: "d + s - 1 = (r - 1) + (q + 1) * s"
    by (simp add: d algebra_simps)
  have "(d + s - 1) div s = ((r - 1) + (q + 1) * s) div s" by (simp only: e)
  also have "\<dots> = (r - 1) div s + (q + 1)"
    using assms(1) by simp
  also have "(r - 1) div s = 0" using r by simp
  finally have "(d + s - 1) div s = d div s + 1" by (simp add: q_def)
  with False show ?thesis by (simp add: dvd_eq_mod_eq_0)
qed

lemma range_len_forward:
  fixes a b s :: int
  assumes "0 < s" "a \<le> b"
  shows "int (range_len a b s) = (b - a + s - 1) div s"
proof (cases "a < b")
  case True
  have "(b - a - 1) div s + 1 = (b - a - 1 + s) div s"
    using assms(1) by simp
  moreover have "0 \<le> (b - a - 1) div s"
    using True assms(1) by (simp add: pos_imp_zdiv_nonneg_iff)
  ultimately show ?thesis using True assms(1)
    by (simp add: range_len_def algebra_simps)
next
  case False
  with assms have "a = b" by simp
  with assms(1) show ?thesis by (simp add: range_len_def)
qed

lemma slice_within_row:
  assumes "0 < s" "0 \<le> a" "a \<le> b" "b \<le> int (length x)"
    and "s = (case st of None \<Rightarrow> 1 | Some t \<Rightarrow> t)"
  shows "\<exists>cols. index_trailing (PySlice (Slice (Some a) (Some b) st)) x = Inr (Columns cols)
           \<and> int (length cols) = (b - a + s - 1) div s"
proof -
  from assms have "slice_indices (Slice (Some a) (Some b) st) (int (length x)) = Inr (a, b, s)"
    by (auto simp: slice_indices_def Let_def)
  then show ?thesis
    using range_len_forward [OF assms(1) assms(3)] by (simp add: index_trailing_def)
qed

subsection \<open>Helper lemmas: evaluation\<close>

lemma collect_append:
  "collect (rs @ ts) =
     (case collect rs of
        Inl e \<Rightarrow> Inl e
      | Inr us \<Rightarrow> (case collect ts of Inl e \<Rightarrow> Inl e | Inr vs \<Rightarrow> Inr (us @ vs)))"
proof (induction rs)
  case Nil
  show ?case by (simp split: sum.splits)
next
  case (Cons r rs)
  then show ?case by (cases r) (simp_all split: sum.splits)
qed

lemma jnp_stack_Inr_iff:
  "jnp_stack as = Inr s \<longleftrightarrow>
     as \<noteq> [] \<and> list_all (\<lambda>b. shape b = shape (hd as)) as \<and>
     s = NDArray (length as # shape (hd as)) (concat (map data as))"
  by (cases as) (auto simp: jnp_stack_def)

lemma jnp_stack_swap:
  assumes "jnp_stack (us @ vs) = Inr s"
  shows "\<exists>s'. jnp_stack (vs @ us) = Inr s' \<and> apply_operator opr s' = apply_operator opr s"
proof -
  from assms have ne: "us @ vs \<noteq> []"
    and same: "\<forall>b \<in> set (us @ vs). shape b = shape (hd (us @ vs))"
    and s: "s = NDArray (length (us @ vs) # shape (hd (us @ vs))) (concat (map data (us @ vs)))"
    by (simp_all add: jnp_stack_Inr_iff list_all_iff)
  from ne have ne': "vs @ us \<noteq> []" by auto
  then have "hd (vs @ us) \<in> set (us @ vs)"
    using hd_in_set [of "vs @ us"] by auto
  with same have "shape (hd (vs @ us)) = shape (hd (us @ vs))" by blast
  with same have same': "list_all (\<lambda>b. shape b = shape (hd (vs @ us))) (vs @ us)"
    by (auto simp: list_all_iff)
  define s' where
    "s' = NDArray (length (vs @ us) # shape (hd (vs @ us))) (concat (map data (vs @ us)))"
  from ne' same' have "jnp_stack (vs @ us) = Inr s'"
    unfolding s'_def jnp_stack_Inr_iff by simp
  moreover have "apply_operator opr s' = apply_operator opr s"
    by (cases opr) (simp_all add: s s'_def scalar_def)
  ultimately show ?thesis by blast
qed

lemma evaluate_children_swap:
  assumes "evaluate (CombinationKernel n ad nm (ks1 @ ks2) opr) x y = Inr v"
  shows "evaluate (CombinationKernel n' ad' nm' (ks2 @ ks1) opr) x y = Inr v"
proof -
  from assms obtain r1 r2 s where
    r1: "collect (map (\<lambda>k. evaluate k x y) ks1) = Inr r1" and
    r2: "collect (map (\<lambda>k. evaluate k x y) ks2) = Inr r2" and
    s: "jnp_stack (r1 @ r2) = Inr s" and v: "v = apply_operator opr s"
    by (auto simp: collect_append split: sum.splits)
  from jnp_stack_swap [OF s, of opr] obtain s' where
    "jnp_stack (r2 @ r1) = Inr s'" "apply_operator opr s' = apply_operator opr s"
    by blast
  with r1 r2 v show ?thesis by (simp add: collect_append)
qed

text \<open>
  The call of a combination kernel on its own: when the children return the scalars
  \<open>vs\<close>, in child order, a sum returns their sum and a product their product.
\<close>

lemma evaluate_reduces_children:
  assumes "collect (map (\<lambda>k. evaluate k x y) ks) = Inr (map scalar vs)" and "vs \<noteq> []"
  shows "evaluate (CombinationKernel n ad nm ks jnp_sum) x y = Inr (scalar (sum_list vs))"
    and "evaluate (CombinationKernel n ad nm ks jnp_prod) x y = Inr (scalar (prod_list vs))"
proof -
  have "concat (map data (map scalar ws)) = ws" for ws
    by (induction ws) (simp_all add: scalar_def)
  moreover have "list_all (\<lambda>b. shape b = []) (map scalar ws)" for ws
    by (induction ws) (simp_all add: scalar_def)
  ultimately have "jnp_stack (map scalar vs) = Inr (NDArray [length vs] vs)"
    using assms(2) by (cases vs) (simp_all add: jnp_stack_def scalar_def)
  with assms(1) show
    "evaluate (CombinationKernel n ad nm ks jnp_sum) x y = Inr (scalar (sum_list vs))"
    "evaluate (CombinationKernel n ad nm ks jnp_prod) x y = Inr (scalar (prod_list vs))"
    by simp_all
qed

subsection \<open>Helper lemmas: rounding\<close>

lemma binary_exponent:
  assumes "2 ^ k \<le> \<bar>x\<bar>" "\<bar>x\<bar> < 2 ^ Suc k"
  shows "\<lfloor>log 2 \<bar>x\<bar>\<rfloor> = int k"
proof -
  have "(0::real) < 2 ^ k" by simp
  with assms(1) have pos: "0 < \<bar>x\<bar>" by linarith
  have "(2::real) powr real_of_int (int k) = 2 ^ k" by (simp add: powr_realpow)
  moreover have "(2::real) powr real_of_int (int k + 1) = 2 ^ Suc k"
    using powr_realpow [of "2::real" "Suc k"] by (simp add: add.commute)
  ultimately show ?thesis
    using assms floor_log_eq_powr_iff [of "\<bar>x\<bar>" 2 "int k"] pos by simp
qed

lemma round_to_precision_at:
  assumes "2 ^ k \<le> \<bar>x\<bar>" "\<bar>x\<bar> < 2 ^ Suc k"
  shows "round_to_precision p x =
     of_int (round_half_even (x / pow2 (int k - (int p - 1)))) * pow2 (int k - (int p - 1))"
proof -
  have "(0::real) < 2 ^ k" by simp
  with assms(1) have "0 < \<bar>x\<bar>" by linarith
  then have "x \<noteq> 0" by auto
  then show ?thesis
    by (simp add: round_to_precision_def binary_exponent [OF assms] Let_def)
qed

section \<open>The claims\<close>

subsection \<open>Adding a bare scalar\<close>

text \<open>
  C1. The specification lets \<open>k + c\<close> and \<open>k * c\<close> succeed for a bare scalar
  \<open>c\<close>, the result evaluating to \<open>k(x, y) + c\<close>. The code writes
  \<open>Constant(other)\<close>, which hands the scalar to \<open>active_dims\<close>, not to
  \<open>constant\<close>. With \<open>c = 3.0\<close> the normaliser rejects the float and both operators
  raise \<open>ValueError\<close>. With the integer \<open>c = 3\<close> the wrapped kernel has
  \<open>n_dims = 3\<close> and the default constant \<open>0\<close>, and the sum evaluates to
  \<open>k(x, y)\<close> alone.
\<close>

theorem scalar_operand_lands_in_active_dims:
  "add (const_kernel 1) (PyValue (PyFloat 3)) =
     Inl (ValueError ''active_dims must be a list, int or slice.'')
   \<and> mul (const_kernel 1) (PyValue (PyFloat 3)) =
     Inl (ValueError ''active_dims must be a list, int or slice.'')
   \<and> add (const_kernel 1) (PyValue (PyInt 3)) =
     Inr (CombinationKernel None default_active_dims default_name
       [const_kernel 1,
        Constant (Some 3) (PySlice (Slice None None None)) default_name default_constant]
       jnp_sum)
   \<and> evaluate (CombinationKernel None default_active_dims default_name
       [const_kernel 1,
        Constant (Some 3) (PySlice (Slice None None None)) default_name default_constant]
       jnp_sum) x y = Inr (scalar 1)"
  by (simp add: add_def mul_def Constant_positional_def Constant_init_def
      AbstractKernel_post_init_def check_active_dims_def SumKernel_def
      CombinationKernel_init_def default_constant_def squeeze_def scalar_def jnp_stack_def)

subsection \<open>A product operand of the sum factory\<close>

text \<open>
  C2. The specification keeps a product given to the sum factory as one child. In the
  code the class test of the loop holds for every combination kernel, so the product's
  children are spliced into the sum: the sum of the product of the constants 2 and 3
  with the constant 4 has the three children 2, 3 and 4, and the product is gone.
\<close>

theorem sum_factory_splices_product_operand:
  "ProductKernel [PyKernel (const_kernel 2), PyKernel (const_kernel 3)] =
     Inr (CombinationKernel None default_active_dims default_name
            [const_kernel 2, const_kernel 3] jnp_prod)
   \<and> SumKernel [PyKernel (CombinationKernel None default_active_dims default_name
                    [const_kernel 2, const_kernel 3] jnp_prod),
                 PyKernel (const_kernel 4)] =
     Inr (CombinationKernel None default_active_dims default_name
            [const_kernel 2, const_kernel 3, const_kernel 4] jnp_sum)"
  by (simp add: SumKernel_def ProductKernel_def CombinationKernel_init_def)

subsection \<open>\<open>n_dims\<close> against the columns selected\<close>

text \<open>
  C3, as amended. Let a kernel be constructed through \<open>AbstractKernel.__post_init__\<close>
  and let \<open>x\<close> be an input row.
  \<^item> For a list of indices that all lie in the row, \<open>slice_input\<close> returns as many
    columns as \<open>n_dims\<close> says.
  \<^item> For a slice with \<open>0 \<le> start \<le> stop \<le> width\<close> and a positive step,
    \<open>slice_input\<close> returns \<open>(stop - start)\<close> over the step rounded up columns, while
    \<open>n_dims\<close> is that quotient rounded down: the two agree exactly when the step
    divides \<open>stop - start\<close>.
  \<^item> For an integer \<open>i\<close>, \<open>slice_input\<close> returns the whole row and \<open>n_dims\<close> is
    \<open>i\<close>: the two agree exactly when the row has \<open>i\<close> columns.
\<close>

theorem n_dims_and_selected_columns:
  assumes "AbstractKernel_post_init raw = Inr k"
  shows
    "(active_dims raw = PyList l
        \<and> list_all (\<lambda>i. - int (length x) \<le> i \<and> i < int (length x)) l \<longrightarrow>
        (\<exists>cols. slice_input k x = Inr (Columns cols) \<and> n_dims k = Some (int (length cols))))
   \<and> (active_dims raw = PySlice (Slice (Some a) (Some b) st)
        \<and> s = (case st of None \<Rightarrow> 1 | Some t \<Rightarrow> t)
        \<and> 0 < s \<and> 0 \<le> a \<and> a \<le> b \<and> b \<le> int (length x) \<longrightarrow>
        (\<exists>cols. slice_input k x = Inr (Columns cols)
           \<and> int (length cols) = (b - a + s - 1) div s
           \<and> n_dims k = Some ((b - a) div s)
           \<and> ((n_dims k = Some (int (length cols))) = (s dvd (b - a)))))
   \<and> (active_dims raw = PyInt i \<longrightarrow>
        slice_input k x = Inr (Columns x) \<and> n_dims k = Some i
        \<and> ((n_dims k = Some (int (length x))) = (i = int (length x))))"
  (is "(?L \<longrightarrow> ?LC) \<and> (?S \<longrightarrow> ?SC) \<and> (?I \<longrightarrow> ?IC)")
proof -
  have list_case: ?LC if h: ?L
  proof -
    from h have "check_active_dims (active_dims raw) = Inr (int (length l), PyList l)"
      by (simp add: check_active_dims_def)
    from post_init_fields [OF assms this]
    have k: "n_dims k = Some (int (length l))" "active_dims k = PyList l" by simp_all
    from h collect_in_range [of x l] obtain cols where
      "collect (map (py_index x) l) = Inr cols" "length cols = length l" by auto
    with k show ?thesis by (simp add: slice_input_def index_trailing_def)
  qed
  have slice_case: ?SC if h: ?S
  proof -
    from h have "check_active_dims (active_dims raw) =
        Inr ((b - a) div s, PySlice (Slice (Some a) (Some b) st))"
      by (auto simp: check_active_dims_def Let_def)
    from post_init_fields [OF assms this]
    have k: "n_dims k = Some ((b - a) div s)"
      "active_dims k = PySlice (Slice (Some a) (Some b) st)" by simp_all
    from h slice_within_row [of s a b x st] obtain cols where
      cols: "index_trailing (PySlice (Slice (Some a) (Some b) st)) x = Inr (Columns cols)"
        "int (length cols) = (b - a + s - 1) div s" by auto
    from h have "((b - a + s - 1) div s = (b - a) div s) = (s dvd (b - a))"
      using ceil_div_eq_floor_div_iff [of s "b - a"] by simp
    with k cols have "(n_dims k = Some (int (length cols))) = (s dvd (b - a))"
      by auto
    with k cols show ?thesis by (simp add: slice_input_def)
  qed
  have int_case: ?IC if h: ?I
  proof -
    from h have "check_active_dims (active_dims raw) = Inr (i, PySlice (Slice None None None))"
      by (simp add: check_active_dims_def)
    from post_init_fields [OF assms this]
    have k: "n_dims k = Some i" "active_dims k = PySlice (Slice None None None)" by simp_all
    then show ?thesis by (simp add: slice_input_def full_slice_selects_all)
  qed
  from list_case slice_case int_case show ?thesis by blast
qed

theorem n_dims_and_selected_columns_witness:
  "AbstractKernel_post_init (Constant None (PyList [0, 2]) default_name (scalar 1)) =
     Inr (Constant (Some 2) (PyList [0, 2]) default_name (scalar 1))
   \<and> slice_input (Constant (Some 2) (PyList [0, 2]) default_name (scalar 1)) [10, 20, 30 :: real] =
     Inr (Columns [10, 30])
   \<and> AbstractKernel_post_init
       (Constant None (PySlice (Slice (Some 1) (Some 5) (Some 2))) default_name (scalar 1)) =
     Inr (Constant (Some 2) (PySlice (Slice (Some 1) (Some 5) (Some 2))) default_name (scalar 1))
   \<and> slice_input
       (Constant (Some 2) (PySlice (Slice (Some 1) (Some 5) (Some 2))) default_name (scalar 1))
       [10, 20, 30, 40, 50 :: real] = Inr (Columns [20, 40])
   \<and> AbstractKernel_post_init (Constant None (PyInt 2) default_name (scalar 1)) =
     Inr (Constant (Some 2) (PySlice (Slice None None None)) default_name (scalar 1))
   \<and> slice_input (Constant (Some 2) (PySlice (Slice None None None)) default_name (scalar 1))
       [10, 20 :: real] = Inr (Columns [10, 20])"
proof -
  have 1: "AbstractKernel_post_init (Constant None (PyList [0, 2]) default_name (scalar 1)) =
     Inr (Constant (Some 2) (PyList [0, 2]) default_name (scalar 1))"
    by (simp add: AbstractKernel_post_init_def check_active_dims_def)
  have 2: "AbstractKernel_post_init
       (Constant None (PySlice (Slice (Some 1) (Some 5) (Some 2))) default_name (scalar 1)) =
     Inr (Constant (Some 2) (PySlice (Slice (Some 1) (Some 5) (Some 2))) default_name (scalar 1))"
    by (simp add: AbstractKernel_post_init_def check_active_dims_def)
  have 3: "AbstractKernel_post_init (Constant None (PyInt 2) default_name (scalar 1)) =
     Inr (Constant (Some 2) (PySlice (Slice None None None)) default_name (scalar 1))"
    by (simp add: AbstractKernel_post_init_def check_active_dims_def)
  have l: "slice_input (Constant (Some 2) (PyList [0, 2]) default_name (scalar 1))
      [10, 20, 30 :: real] = Inr (Columns [10, 30])"
    using n_dims_and_selected_columns [OF 1, where l = "[0, 2]" and x = "[10, 20, 30 :: real]"]
    by (simp add: slice_input_def index_trailing_def py_index_def)
  have s: "slice_input
       (Constant (Some 2) (PySlice (Slice (Some 1) (Some 5) (Some 2))) default_name (scalar 1))
       [10, 20, 30, 40, 50 :: real] = Inr (Columns [20, 40])"
    using n_dims_and_selected_columns [OF 2, where a = 1 and b = 5 and st = "Some 2" and s = 2
          and x = "[10, 20, 30, 40, 50 :: real]"]
    by (simp add: slice_input_def index_trailing_def slice_indices_def range_len_def upt_rec)
  have i: "slice_input (Constant (Some 2) (PySlice (Slice None None None)) default_name (scalar 1))
       [10, 20 :: real] = Inr (Columns [10, 20])"
    using n_dims_and_selected_columns [OF 3, where i = 2 and x = "[10, 20 :: real]"]
    by simp
  from 1 2 3 l s i show ?thesis by simp
qed

text \<open>
  The claim as first stated fails. The default selector \<open>1\<close> gives \<open>n_dims = 1\<close>, and
  \<open>slice_input\<close> returns all three columns of a row of width three. The slice
  \<open>slice(0, 5, 2)\<close> gives \<open>n_dims = 2\<close> and selects the three columns 0, 2 and 4. A
  kernel from the sum factory has no \<open>n_dims\<close> at all.
\<close>

theorem n_dims_against_columns_counterexample:
  "Constant_init default_active_dims default_name (scalar 0) = Inr (const_kernel 0)
   \<and> n_dims (const_kernel 0) = Some 1
   \<and> slice_input (const_kernel 0) [10, 20, 30 :: real] = Inr (Columns [10, 20, 30])
   \<and> Constant_init (PySlice (Slice (Some 0) (Some 5) (Some 2))) default_name (scalar 0) =
       Inr (Constant (Some 2) (PySlice (Slice (Some 0) (Some 5) (Some 2))) default_name (scalar 0))
   \<and> slice_input
       (Constant (Some 2) (PySlice (Slice (Some 0) (Some 5) (Some 2))) default_name (scalar 0))
       [10, 20, 30, 40, 50 :: real] = Inr (Columns [10, 30, 50])
   \<and> SumKernel [PyKernel (const_kernel 0), PyKernel (const_kernel 1)] =
       Inr (CombinationKernel None (PyInt 1) default_name [const_kernel 0, const_kernel 1] jnp_sum)
   \<and> n_dims (CombinationKernel None (PyInt 1) default_name
         [const_kernel 0, const_kernel 1] jnp_sum) = None"
  by (simp add: Constant_init_def AbstractKernel_post_init_def check_active_dims_def
      default_active_dims_def slice_input_def index_trailing_def slice_indices_def
      range_len_def upt_rec SumKernel_def CombinationKernel_init_def)

subsection \<open>Flattening\<close>

text \<open>
  C4. The specification gives \<open>(A + B) + C\<close> exactly three children, each a leaf or
  a composite of the other kind. In the code a product operand is spliced like a sum:
  with \<open>A\<close> the product of the constants 2 and 3, \<open>B\<close> the constant 4 and \<open>C\<close>
  the constant 5, \<open>A + B\<close> has the children 2, 3, 4 and \<open>(A + B) + C\<close> has the four
  children 2, 3, 4, 5; the product is not among them.
\<close>

theorem nested_sum_splices_product_operand:
  "add (CombinationKernel None default_active_dims default_name
          [const_kernel 2, const_kernel 3] jnp_prod) (PyKernel (const_kernel 4)) =
     Inr (CombinationKernel None default_active_dims default_name
            [const_kernel 2, const_kernel 3, const_kernel 4] jnp_sum)
   \<and> add (CombinationKernel None default_active_dims default_name
            [const_kernel 2, const_kernel 3, const_kernel 4] jnp_sum)
        (PyKernel (const_kernel 5)) =
     Inr (CombinationKernel None default_active_dims default_name
            [const_kernel 2, const_kernel 3, const_kernel 4, const_kernel 5] jnp_sum)
   \<and> length (kernels (CombinationKernel None default_active_dims default_name
            [const_kernel 2, const_kernel 3, const_kernel 4, const_kernel 5] jnp_sum)) = 4"
  by (simp add: add_kernel)

subsection \<open>Evaluating a sum\<close>

text \<open>
  C5. The specification has \<open>(A + B)(x, y) = A(x, y) + B(x, y)\<close> for any two kernels.
  The call of a combination kernel does reduce its children in order, but the children
  of \<open>A + B\<close> are not \<open>A\<close> and \<open>B\<close> when \<open>A\<close> is a product: with \<open>A\<close> the
  product of the constants 2 and 3 and \<open>B\<close> the constant 4, \<open>A + B\<close> is the sum of
  2, 3 and 4 and evaluates to 9, while \<open>A\<close> evaluates to 6 and \<open>B\<close> to 4.
\<close>

theorem sum_with_product_operand_adds_its_factors:
  "add (CombinationKernel None default_active_dims default_name
          [const_kernel 2, const_kernel 3] jnp_prod) (PyKernel (const_kernel 4)) =
     Inr (CombinationKernel None default_active_dims default_name
            [const_kernel 2, const_kernel 3, const_kernel 4] jnp_sum)
   \<and> evaluate (CombinationKernel None default_active_dims default_name
            [const_kernel 2, const_kernel 3, const_kernel 4] jnp_sum) x y = Inr (scalar 9)
   \<and> evaluate (CombinationKernel None default_active_dims default_name
          [const_kernel 2, const_kernel 3] jnp_prod) x y = Inr (scalar 6)
   \<and> evaluate (const_kernel 4) x y = Inr (scalar 4)"
  by (simp add: add_def SumKernel_def CombinationKernel_init_def squeeze_def scalar_def
      jnp_stack_def)

subsection \<open>Commutativity of addition\<close>

text \<open>
  In exact arithmetic \<open>A + B\<close> and \<open>B + A\<close> evaluate alike for any two kernels: the
  two child lists hold the same blocks in swapped order.
\<close>

lemma addition_commutes_over_reals:
  "\<exists>s t. add A (PyKernel B) = Inr s \<and> add B (PyKernel A) = Inr t
       \<and> (\<forall>v. (evaluate s x y = Inr v) = (evaluate t x y = Inr v))"
proof -
  let ?fa = "if isinstance_self_class A then kernels A else [A]"
  let ?fb = "if isinstance_self_class B then kernels B else [B]"
  let ?s = "CombinationKernel None default_active_dims default_name (?fa @ ?fb) jnp_sum"
  let ?t = "CombinationKernel None default_active_dims default_name (?fb @ ?fa) jnp_sum"
  have "(evaluate ?s x y = Inr v) = (evaluate ?t x y = Inr v)" for v
    using evaluate_children_swap [of None default_active_dims default_name ?fa ?fb jnp_sum x y v]
          evaluate_children_swap [of None default_active_dims default_name ?fb ?fa jnp_sum x y v]
    by blast
  moreover have "add A (PyKernel B) = Inr ?s" "add B (PyKernel A) = Inr ?t"
    by (rule add_kernel)+
  ultimately show ?thesis by simp
qed

text \<open>
  C6, as amended. Let \<open>A\<close> and \<open>B\<close> be kernels that are not combination kernels
  and that evaluate to the scalars \<open>a\<close> and \<open>b\<close>, both values of the floating-point
  format. Then \<open>A + B\<close> and \<open>B + A\<close> are constructed and both evaluate to the
  rounded sum of \<open>a\<close> and \<open>b\<close>. The reflected addition returns what the forward
  addition returns, for every operand.
\<close>

theorem addition_commutes_for_scalar_leaves:
  assumes "\<not> isinstance_self_class A" and "\<not> isinstance_self_class B"
    and "evaluate_float p A x y = Inr (scalar a)"
    and "evaluate_float p B x y = Inr (scalar b)"
    and "round_to_precision p a = a" and "round_to_precision p b = b"
  shows "(\<exists>s t. add A (PyKernel B) = Inr s \<and> add B (PyKernel A) = Inr t
            \<and> evaluate_float p s x y = Inr (scalar (round_to_precision p (a + b)))
            \<and> evaluate_float p t x y = evaluate_float p s x y)
       \<and> radd A other = add A other"
proof -
  let ?s = "CombinationKernel None default_active_dims default_name [A, B] jnp_sum"
  let ?t = "CombinationKernel None default_active_dims default_name [B, A] jnp_sum"
  from assms(1,2) have s: "add A (PyKernel B) = Inr ?s" and t: "add B (PyKernel A) = Inr ?t"
    by (simp_all add: add_kernel)
  from assms(3-6) have es:
    "evaluate_float p ?s x y = Inr (scalar (round_to_precision p (a + b)))"
    by (simp add: jnp_stack_def scalar_def)
  from assms(3-6) have
    "evaluate_float p ?t x y = Inr (scalar (round_to_precision p (b + a)))"
    by (simp add: jnp_stack_def scalar_def)
  with es have "evaluate_float p ?t x y = evaluate_float p ?s x y"
    by (simp add: add.commute)
  with s t es show ?thesis by (simp add: radd_def)
qed

theorem addition_commutes_for_scalar_leaves_witness:
  "add (const_kernel 2)
       (PyKernel (OtherKernel (Some 2) (PyList [0, 1]) ''dot'' (\<lambda>x y. hd x * hd y))) =
     Inr (CombinationKernel None default_active_dims default_name
       [const_kernel 2, OtherKernel (Some 2) (PyList [0, 1]) ''dot'' (\<lambda>x y. hd x * hd y)]
       jnp_sum)
   \<and> add (OtherKernel (Some 2) (PyList [0, 1]) ''dot'' (\<lambda>x y. hd x * hd y))
       (PyKernel (const_kernel 2)) =
     Inr (CombinationKernel None default_active_dims default_name
       [OtherKernel (Some 2) (PyList [0, 1]) ''dot'' (\<lambda>x y. hd x * hd y), const_kernel 2]
       jnp_sum)
   \<and> evaluate_float 53 (CombinationKernel None default_active_dims default_name
       [const_kernel 2, OtherKernel (Some 2) (PyList [0, 1]) ''dot'' (\<lambda>x y. hd x * hd y)]
       jnp_sum) [3, 1] [4, 1] = Inr (scalar 14)
   \<and> evaluate_float 53 (CombinationKernel None default_active_dims default_name
       [OtherKernel (Some 2) (PyList [0, 1]) ''dot'' (\<lambda>x y. hd x * hd y), const_kernel 2]
       jnp_sum) [3, 1] [4, 1] = Inr (scalar 14)
   \<and> radd (const_kernel 2) (PyValue (PyInt 3)) = add (const_kernel 2) (PyValue (PyInt 3))"
proof -
  have r2: "round_to_precision 53 2 = 2"
    using round_to_precision_at [of 1 2 53] by (simp add: pow2_def round_half_even_def)
  have r12: "round_to_precision 53 12 = 12"
    using round_to_precision_at [of 3 12 53] by (simp add: pow2_def round_half_even_def)
  have r14: "round_to_precision 53 14 = 14"
    using round_to_precision_at [of 3 14 53] by (simp add: pow2_def round_half_even_def)
  from r2 r12 r14 addition_commutes_for_scalar_leaves [of "const_kernel 2"
      "OtherKernel (Some 2) (PyList [0, 1]) ''dot'' (\<lambda>x y. hd x * hd y)" 53 "[3, 1]" "[4, 1]"
      2 12 "PyValue (PyInt 3)"]
  show ?thesis
    by (simp add: add_kernel squeeze_def scalar_def jnp_stack_def)
qed

text \<open>
  The claim as first stated fails when an operand is a sum, whose children are spliced.
  With \<open>A\<close> the sum of the constants \<open>1e16\<close> and \<open>-1e16\<close> and \<open>B\<close> the constant
  1, \<open>A + B\<close> reduces 1e16, -1e16, 1 and gives 1 in binary64, while \<open>B + A\<close>
  reduces 1, 1e16, -1e16 and gives 0: the sum of 1 and 1e16 rounds to 1e16.
\<close>

theorem addition_order_counterexample:
  "SumKernel [PyKernel (const_kernel 10000000000000000),
              PyKernel (const_kernel (- 10000000000000000))] =
     Inr (CombinationKernel None default_active_dims default_name
       [const_kernel 10000000000000000, const_kernel (- 10000000000000000)] jnp_sum)
   \<and> add (CombinationKernel None default_active_dims default_name
       [const_kernel 10000000000000000, const_kernel (- 10000000000000000)] jnp_sum)
       (PyKernel (const_kernel 1)) =
     Inr (CombinationKernel None default_active_dims default_name
       [const_kernel 10000000000000000, const_kernel (- 10000000000000000), const_kernel 1]
       jnp_sum)
   \<and> add (const_kernel 1)
       (PyKernel (CombinationKernel None default_active_dims default_name
       [const_kernel 10000000000000000, const_kernel (- 10000000000000000)] jnp_sum)) =
     Inr (CombinationKernel None default_active_dims default_name
       [const_kernel 1, const_kernel 10000000000000000, const_kernel (- 10000000000000000)]
       jnp_sum)
   \<and> evaluate_float 53 (CombinationKernel None default_active_dims default_name
       [const_kernel 10000000000000000, const_kernel (- 10000000000000000), const_kernel 1]
       jnp_sum) [] [] = Inr (scalar 1)
   \<and> evaluate_float 53 (CombinationKernel None default_active_dims default_name
       [const_kernel 1, const_kernel 10000000000000000, const_kernel (- 10000000000000000)]
       jnp_sum) [] [] = Inr (scalar 0)"
proof -
  have r1: "round_to_precision 53 1 = 1"
    using round_to_precision_at [of 0 1 53] by (simp add: pow2_def round_half_even_def)
  have r2: "round_to_precision 53 10000000000000000 = 10000000000000000"
    using round_to_precision_at [of 53 10000000000000000 53]
    by (simp add: pow2_def round_half_even_def)
  have r3: "round_to_precision 53 10000000000000001 = 10000000000000000"
    using round_to_precision_at [of 53 10000000000000001 53]
    by (simp add: pow2_def round_half_even_def)
  have r0: "round_to_precision 53 0 = 0"
    by (simp add: round_to_precision_def)
  from r0 r1 r2 r3 show ?thesis
    by (simp add: add_kernel SumKernel_def CombinationKernel_init_def squeeze_def scalar_def
        jnp_stack_def)
qed

subsection \<open>The constant kernel\<close>

text \<open>
  C7. Calling a constant kernel returns its parameter slot squeezed, whatever the two
  inputs are. When the slot holds one value, with any number of axes of length one, the
  result is that value as a scalar. A kernel constructed with the slot set to 5.0 and
  every other field left at its default evaluates to 5.0.
\<close>

theorem Constant_call_returns_squeezed_constant:
  "evaluate (Constant n ad nm c) x y = Inr (squeeze c)
   \<and> evaluate (Constant n ad nm c) x y = evaluate (Constant n ad nm c) x' y'
   \<and> (list_all (\<lambda>d. d = 1) (shape c) \<and> data c = [v] \<longrightarrow>
        evaluate (Constant n ad nm c) x y = Inr (scalar v))
   \<and> (Constant_init default_active_dims default_name (scalar 5) = Inr k \<longrightarrow>
        evaluate k x y = Inr (scalar 5))"
proof -
  have "filter (\<lambda>d. d \<noteq> 1) sh = []" if "list_all (\<lambda>d. d = 1) sh" for sh :: "nat list"
    using that by (induction sh) auto
  then have "list_all (\<lambda>d. d = 1) (shape c) \<and> data c = [v] \<longrightarrow> squeeze c = scalar v"
    by (simp add: squeeze_def scalar_def)
  moreover have "Constant_init default_active_dims default_name (scalar 5) = Inr k \<longrightarrow>
        evaluate k x y = Inr (scalar 5)"
    by (auto simp: Constant_init_def AbstractKernel_post_init_def check_active_dims_def
        default_active_dims_def squeeze_def scalar_def)
  ultimately show ?thesis by simp
qed

theorem Constant_call_returns_squeezed_constant_witness:
  "evaluate (Constant (Some 1) (PySlice (Slice None None None)) ''AbstractKernel''
       (NDArray [1, 1] [5])) [1, 2] [3, 4] = Inr (scalar 5)
   \<and> Constant_init default_active_dims default_name (scalar 5) = Inr (const_kernel 5)
   \<and> evaluate (const_kernel 5) [0] [7] = Inr (scalar 5)"
  using Constant_call_returns_squeezed_constant
       [of "Some 1" "PySlice (Slice None None None)" "''AbstractKernel''" "NDArray [1, 1] [5]"
           "[1, 2]" "[3, 4]" "[]" "[]" 5 "const_kernel 5"]
       Constant_call_returns_squeezed_constant
       [of "Some 1" "PySlice (Slice None None None)" default_name "scalar 5"
           "[0]" "[7]" "[]" "[]" 5 "const_kernel 5"]
  by (simp add: Constant_init_def AbstractKernel_post_init_def check_active_dims_def
        default_active_dims_def scalar_def)

subsection \<open>An integer selector\<close>

text \<open>
  C8, as amended. For a positive integer \<open>k\<close> the normaliser returns \<open>n_dims = k\<close>
  and the full slice, and \<open>slice_input\<close> with the full slice returns the input row
  with all its columns. These are the first \<open>k\<close> columns exactly when the row has at
  most \<open>k\<close> columns.
\<close>

theorem integer_selector_is_full_slice:
  assumes "0 < k" and "active_dims self = PySlice (Slice None None None)"
  shows "check_active_dims (PyInt k) = Inr (k, active_dims self)
       \<and> slice_input self x = Inr (Columns x)
       \<and> ((x = take (nat k) x) = (length x \<le> nat k))"
proof -
  have "(x = take (nat k) x) = (length x \<le> nat k)"
  proof
    assume "x = take (nat k) x"
    then have "length x = length (take (nat k) x)" by simp
    then show "length x \<le> nat k" by simp
  qed simp
  with assms show ?thesis
    by (simp add: check_active_dims_def slice_input_def full_slice_selects_all)
qed

theorem integer_selector_is_full_slice_witness:
  "check_active_dims (PyInt 2) = Inr (2, PySlice (Slice None None None))
   \<and> slice_input (Constant (Some 2) (PySlice (Slice None None None)) default_name (scalar 1))
       [10, 20, 30 :: real] = Inr (Columns [10, 20, 30])
   \<and> \<not> length [10, 20, 30 :: real] \<le> nat 2"
  using integer_selector_is_full_slice
    [of 2 "Constant (Some 2) (PySlice (Slice None None None)) default_name (scalar 1)"
        "[10, 20, 30 :: real]"]
  by simp

text \<open>
  The claim as first stated fails on a row wider than \<open>k\<close>: for \<open>k = 1\<close> and a row of
  two columns the canonical selector returns both, not the first one alone.
\<close>

theorem integer_selector_counterexample:
  "check_active_dims (PyInt 1) = Inr (1, PySlice (Slice None None None))
   \<and> slice_input (const_kernel 0) [10, 20 :: real] = Inr (Columns [10, 20])
   \<and> slice_input (const_kernel 0) [10, 20 :: real] \<noteq> Inr (Columns (take 1 [10, 20]))"
  by (simp add: check_active_dims_def slice_input_def full_slice_selects_all)

subsection \<open>Operand validation\<close>

text \<open>
  C9. An operand list that holds anything but kernels makes the construction of a
  combination kernel raise \<open>TypeError("can only combine Kernel instances")\<close>,
  whatever the operands before and after it are; this holds for the class and for both
  factories.
\<close>

theorem non_kernel_operand_raises_TypeError:
  assumes "PyValue v \<in> set ks"
  shows "CombinationKernel_init ad nm ks opr =
           Inl (TypeError ''can only combine Kernel instances'')
       \<and> SumKernel ks = Inl (TypeError ''can only combine Kernel instances'')
       \<and> ProductKernel ks = Inl (TypeError ''can only combine Kernel instances'')"
  using flatten_loop_non_kernel [OF assms, of "[]"]
  by (simp add: CombinationKernel_init_def SumKernel_def ProductKernel_def)

theorem non_kernel_operand_raises_TypeError_witness:
  "SumKernel [PyKernel (const_kernel 2),
              PyValue (PyStr ''rbf''),
              PyKernel (CombinationKernel None (PyInt 1) ''b'' [] jnp_prod)]
     = Inl (TypeError ''can only combine Kernel instances'')"
  using non_kernel_operand_raises_TypeError [of "PyStr ''rbf''"
      "[PyKernel (const_kernel 2),
        PyValue (PyStr ''rbf''),
        PyKernel (CombinationKernel None (PyInt 1) ''b'' [] jnp_prod)]"]
  by simp

subsection \<open>Slices with an omitted bound\<close>

text \<open>
  C10. For a slice whose start or stop is \<open>None\<close> the normaliser returns nothing and
  does not raise its own \<open>ValueError\<close>: the subtraction raises \<open>TypeError\<close>. So a
  slice on which the normaliser returns has both bounds given.
\<close>

theorem slice_with_omitted_bound_raises_TypeError:
  "(start s = None \<or> stop s = None \<longrightarrow>
      check_active_dims (PySlice s) = Inl (TypeError ''unsupported operand type(s) for -''))
   \<and> check_active_dims (PySlice s) \<noteq>
        Inl (ValueError ''active_dims must be a list, int or slice.'')
   \<and> ((\<exists>r. check_active_dims (PySlice s) = Inr r) \<longrightarrow>
        start s \<noteq> None \<and> stop s \<noteq> None)"
  by (cases s) (auto simp: check_active_dims_def Let_def split: option.splits)

theorem slice_with_omitted_bound_raises_TypeError_witness:
  "check_active_dims (PySlice (Slice None (Some 5) None)) =
      Inl (TypeError ''unsupported operand type(s) for -'')
   \<and> check_active_dims (PySlice (Slice None None None)) =
      Inl (TypeError ''unsupported operand type(s) for -'')
   \<and> check_active_dims (PySlice (Slice (Some 2) (Some 5) None)) =
      Inr (3, PySlice (Slice (Some 2) (Some 5) None))
   \<and> start (Slice (Some 2) (Some 5) None) \<noteq> None
   \<and> stop (Slice (Some 2) (Some 5) None) \<noteq> None"
  using slice_with_omitted_bound_raises_TypeError [of "Slice None (Some 5) None"]
        slice_with_omitted_bound_raises_TypeError [of "Slice None None None"]
        slice_with_omitted_bound_raises_TypeError [of "Slice (Some 2) (Some 5) None"]
  by (simp add: check_active_dims_def)

end
